theory Spec2Isabelle
  imports Complex_Main
begin

section \<open>Back-projection of 2D polylines into point-cloud space\<close>

text \<open>
  This theory embeds \<^verbatim>\<open>polyline_2d_to_3d\<close> and the grouping loop of
  \<^verbatim>\<open>load_annotation\<close> (file \<^verbatim>\<open>__init__.py\<close>). Python floats are
  modelled by \<^typ>\<open>real\<close>: every arithmetic step is exact, there is no rounding, no
  infinity and no NaN. The order of the arithmetic operations is the order of the source.
\<close>

subsection \<open>Errors\<close>

text \<open>
  The exceptions the modelled statements can raise. A function that can raise returns
  \<open>error + 'a\<close>, with \<open>Inl\<close> for the exception.
\<close>

datatype error = IndexError | ValueError

definition bind :: "error + 'a \<Rightarrow> ('a \<Rightarrow> error + 'b) \<Rightarrow> error + 'b" where
  "bind r f = (case r of Inl e \<Rightarrow> Inl e | Inr x \<Rightarrow> f x)"

subsection \<open>Data model\<close>

text \<open>
  Modelled from the spec: the record of the projection metadata is a class of the host
  framework and is not declared in the repository. The source reads its attributes
  \<^verbatim>\<open>min_bound\<close>, \<^verbatim>\<open>max_bound\<close>, \<^verbatim>\<open>width\<close> and \<^verbatim>\<open>height\<close>; the
  spec gives the bounds as 2-component real vectors (read in the source as
  \<^verbatim>\<open>min_bound[0]\<close> and \<^verbatim>\<open>min_bound[1]\<close>, here \<open>fst\<close> and \<open>snd\<close>) and the
  image dimensions as integers.
\<close>

record ProjectionMetadata =
  min_bound :: "real \<times> real"
  max_bound :: "real \<times> real"
  width :: int
  height :: int

text \<open>
  Modelled from the spec: the polyline class of the host framework, with the two
  attributes the source reads (\<^verbatim>\<open>label\<close>, \<^verbatim>\<open>points\<close>) and the two it sets on
  the result (\<^verbatim>\<open>label\<close>, \<^verbatim>\<open>points3d\<close>). \<open>points\<close> is a list of chains, a
  chain is a list of points, a point is a list of coordinates: the number of coordinates
  of a point is not fixed by the type, as in Python.
\<close>

record Label =
  label :: string

record Polyline2D = Label +
  points :: "real list list list"

record Polyline3D = Label +
  points3d :: "real list list list"

text \<open>The collection class, with its one attribute \<^verbatim>\<open>polylines\<close>.\<close>

record 'a Polylines =
  polylines :: "'a list"

subsection \<open>The array operations used by the source\<close>

text \<open>
  An array is its shape and its content as nested lists (what \<^verbatim>\<open>tolist()\<close>
  returns). All arrays of the source are built from a list of chains or by
  \<^verbatim>\<open>np.zeros\<close> with three axes, so the content is always a list of lists of lists.
\<close>

record ndarray =
  shape :: "nat list"
  items :: "real list list list"

text \<open>
  \<^verbatim>\<open>np.array(points)\<close>. The shape is found from the outside in: no chain gives
  shape \<open>(0,)\<close>; chains that are all empty give \<open>(n, 0)\<close>; chains of one length
  \<open>m > 0\<close> whose points all have \<open>k\<close> coordinates give \<open>(n, m, k)\<close>. A ragged
  nesting raises \<^verbatim>\<open>ValueError\<close> (numpy 1.24 and later; earlier versions build an
  array of objects with fewer axes, on which the shape lookups of the next source line
  raise \<^verbatim>\<open>IndexError\<close> instead).
\<close>

definition np_array :: "real list list list \<Rightarrow> error + ndarray" where
  "np_array cs =
     (if cs = [] then Inr \<lparr>shape = [0], items = cs\<rparr>
      else if \<exists>c \<in> set cs. length c \<noteq> length (hd cs) then Inl ValueError
      else if hd cs = [] then Inr \<lparr>shape = [length cs, 0], items = cs\<rparr>
      else if \<exists>q \<in> set (concat cs). length q \<noteq> length (hd (hd cs)) then Inl ValueError
      else Inr \<lparr>shape = [length cs, length (hd cs), length (hd (hd cs))], items = cs\<rparr>)"

text \<open>\<^verbatim>\<open>shape[i]\<close> on the shape tuple, for a non-negative \<open>i\<close>.\<close>

definition tuple_get :: "nat list \<Rightarrow> nat \<Rightarrow> error + nat" where
  "tuple_get t i = (if i < length t then Inr (t ! i) else Inl IndexError)"

text \<open>\<^verbatim>\<open>np.zeros((a, b, c))\<close>.\<close>

definition np_zeros :: "nat \<times> nat \<times> nat \<Rightarrow> ndarray" where
  "np_zeros s = (case s of (a, b, c) \<Rightarrow>
     \<lparr>shape = [a, b, c], items = replicate a (replicate b (replicate c 0))\<rparr>)"

text \<open>
  An integer index into an axis of size \<open>n\<close>: a negative index counts from the end, an
  index outside \<open>-n \<dots> n-1\<close> raises \<^verbatim>\<open>IndexError\<close>.
\<close>

definition axis_index :: "nat \<Rightarrow> int \<Rightarrow> error + nat" where
  "axis_index n i =
     (let j = (if i < 0 then int n + i else i)
      in if 0 \<le> j \<and> j < int n then Inr (nat j) else Inl IndexError)"

text \<open>
  The common part of \<^verbatim>\<open>a[:,:,i] = v\<close>, \<^verbatim>\<open>a[:,:,i] *= v\<close> and
  \<^verbatim>\<open>a[:,:,i] += v\<close>: the entry at index \<open>i\<close> of every point is replaced by
  \<open>g\<close> of it. An array that has not three axes raises \<^verbatim>\<open>IndexError\<close> (too many
  indices), as does an index outside the last axis, also when the array has no point.
\<close>

definition col_update :: "ndarray \<Rightarrow> int \<Rightarrow> (real \<Rightarrow> real) \<Rightarrow> error + ndarray" where
  "col_update a i g =
     (case shape a of
        [s0, s1, s2] \<Rightarrow>
          bind (axis_index s2 i)
            (\<lambda>j. Inr (a\<lparr>items := map (map (\<lambda>q. q[j := g (q ! j)])) (items a)\<rparr>))
      | _ \<Rightarrow> Inl IndexError)"

definition col_set :: "ndarray \<Rightarrow> int \<Rightarrow> real \<Rightarrow> error + ndarray" where
  "col_set a i v = col_update a i (\<lambda>x. v)"

definition col_imul :: "ndarray \<Rightarrow> int \<Rightarrow> real \<Rightarrow> error + ndarray" where
  "col_imul a i v = col_update a i (\<lambda>x. x * v)"

definition col_iadd :: "ndarray \<Rightarrow> int \<Rightarrow> real \<Rightarrow> error + ndarray" where
  "col_iadd a i v = col_update a i (\<lambda>x. x + v)"

text \<open>
  \<^verbatim>\<open>a[:,:,:-1] = b\<close>: all entries but the last of every point of \<open>a\<close> are
  replaced by the point of \<open>b\<close> at the same place. The source of the assignment must
  have the shape of the slice, which is the shape of \<open>a\<close> with the last axis one
  shorter; otherwise \<^verbatim>\<open>ValueError\<close> (numpy would also accept a source it can
  broadcast to that shape; the one call in the source passes an array of exactly that
  shape whenever it is reached).
\<close>

definition set_all_but_last :: "ndarray \<Rightarrow> ndarray \<Rightarrow> error + ndarray" where
  "set_all_but_last a b =
     (case shape a of
        [s0, s1, s2] \<Rightarrow>
          if shape b = [s0, s1, s2 - 1]
          then Inr (a\<lparr>items :=
                 map (\<lambda>(ca, cb). map (\<lambda>(qa, qb). qb @ drop (length qb) qa) (zip ca cb))
                   (zip (items a) (items b))\<rparr>)
          else Inl ValueError
      | _ \<Rightarrow> Inl IndexError)"

subsection \<open>\<^verbatim>\<open>polyline_2d_to_3d\<close>\<close>

text \<open>
  Source lines 58 to 74, statement by statement. \<open>width\<close> and \<open>height\<close> are read and
  never used.
\<close>

definition polyline_2d_to_3d ::
  "Polyline2D \<Rightarrow> ProjectionMetadata \<Rightarrow> real \<Rightarrow> error + Polyline3D" where
  "polyline_2d_to_3d polyline_2d metadata road_z_value =
     (let min_b = min_bound metadata;
          max_b = max_bound metadata;
          w = width metadata;
          h = height metadata
      in bind (np_array (points polyline_2d)) (\<lambda>arr.
         bind (tuple_get (shape arr) 0) (\<lambda>shape0.
         bind (tuple_get (shape arr) 1) (\<lambda>shape1.
         bind (tuple_get (shape arr) 2) (\<lambda>shape2.
         bind (col_set (np_zeros (shape0, shape1, shape2 + 1)) (- 1) road_z_value) (\<lambda>p1.
         bind (np_array (points polyline_2d)) (\<lambda>arr'.
         bind (set_all_but_last p1 arr') (\<lambda>p2.
         bind (col_imul p2 1 (- 1)) (\<lambda>p3.
         bind (col_iadd p3 1 1) (\<lambda>p4.
         bind (col_imul p4 0 (fst max_b - fst min_b)) (\<lambda>p5.
         bind (col_imul p5 1 (snd max_b - snd min_b)) (\<lambda>p6.
         bind (col_iadd p6 0 (fst min_b)) (\<lambda>p7.
         bind (col_iadd p7 1 (snd min_b)) (\<lambda>p8.
         Inr \<lparr>label = label polyline_2d, points3d = items p8\<rparr>))))))))))))))"

subsection \<open>The grouping loop of \<^verbatim>\<open>load_annotation\<close>\<close>

text \<open>
  Source lines 94 to 98: the inner loop appends the converted polylines to
  \<^verbatim>\<open>sample_polylines_3d\<close>, in order; an exception of a conversion leaves the loop.
\<close>

fun convert_polylines ::
  "Polyline2D list \<Rightarrow> ProjectionMetadata \<Rightarrow> real \<Rightarrow> Polyline3D list \<Rightarrow> error + Polyline3D list" where
  "convert_polylines [] metadata road_surface sample_polylines_3d = Inr sample_polylines_3d"
| "convert_polylines (p # ps) metadata road_surface sample_polylines_3d =
     bind (polyline_2d_to_3d p metadata road_surface) (\<lambda>polyline_3d.
       convert_polylines ps metadata road_surface (sample_polylines_3d @ [polyline_3d]))"

definition convert_sample ::
  "Polyline2D Polylines option \<Rightarrow> ProjectionMetadata \<Rightarrow> real \<Rightarrow> error + Polyline3D list" where
  "convert_sample sample_polylines metadata road_surface =
     (case sample_polylines of
        None \<Rightarrow> Inr []
      | Some c \<Rightarrow> convert_polylines (polylines c) metadata road_surface [])"

text \<open>
  Source lines 93 to 100: the outer loop over the zipped sequences stores the sample's
  collection in the dictionary \<^verbatim>\<open>polylines_3d\<close> under its group identifier.
\<close>

fun grouping_loop ::
  "(Polyline2D Polylines option \<times> ProjectionMetadata \<times> 'g) list \<Rightarrow> real \<Rightarrow>
     ('g \<rightharpoonup> Polyline3D Polylines) \<Rightarrow> error + ('g \<rightharpoonup> Polyline3D Polylines)" where
  "grouping_loop [] road_surface polylines_3d = Inr polylines_3d"
| "grouping_loop ((sample_polylines, metadata, group_id) # rest) road_surface polylines_3d =
     bind (convert_sample sample_polylines metadata road_surface) (\<lambda>sample_polylines_3d.
       grouping_loop rest road_surface
         (polylines_3d(group_id \<mapsto> \<lparr>polylines = sample_polylines_3d\<rparr>)))"

text \<open>
  Source lines 92 to 100: the dictionary starts empty and the three sequences are
  zipped, so the loop runs over as many entries as the shortest of them has.
\<close>

definition load_annotation_polylines_3d ::
  "Polyline2D Polylines option list \<Rightarrow> ProjectionMetadata list \<Rightarrow> 'g list \<Rightarrow> real \<Rightarrow>
     error + ('g \<rightharpoonup> Polyline3D Polylines)" where
  "load_annotation_polylines_3d all_polylines metadatas group_ids road_surface =
     grouping_loop (zip all_polylines (zip metadatas group_ids)) road_surface Map.empty"

subsection \<open>The arithmetic seen on one point\<close>

text \<open>
  Source lines 67 to 72 act on every point of the array alike. \<open>point_ops\<close> is what
  the six statements, in their order, do to the coordinate list of one point; it is
  used to state the result of \<open>polyline_2d_to_3d\<close> in closed form.
\<close>

definition point_ops :: "ProjectionMetadata \<Rightarrow> real list \<Rightarrow> real list" where
  "point_ops metadata q =
     (let q3 = q[1 := q ! 1 * (- 1)];
          q4 = q3[1 := q3 ! 1 + 1];
          q5 = q4[0 := q4 ! 0 * (fst (max_bound metadata) - fst (min_bound metadata))];
          q6 = q5[1 := q5 ! 1 * (snd (max_bound metadata) - snd (min_bound metadata))];
          q7 = q6[0 := q6 ! 0 + fst (min_bound metadata)]
      in q7[1 := q7 ! 1 + snd (min_bound metadata)])"

text \<open>
  Linear interpolation of two points, coordinate by coordinate. It is not part of the
  source: it is the \<^verbatim>\<open>lerp\<close> of the linearity property, against which the code
  is compared.
\<close>

definition lerp :: "real list \<Rightarrow> real list \<Rightarrow> real \<Rightarrow> real list" where
  "lerp a b t = map (\<lambda>(x, y). x + t * (y - x)) (zip a b)"

section \<open>Auxiliary facts\<close>

subsection \<open>Arrays and the conversion of one polyline\<close>

lemma bind_Inr [simp]: "bind (Inr x) f = f x"
  by (simp add: bind_def)

lemma bind_Inl [simp]: "bind (Inl e) f = Inl e"
  by (simp add: bind_def)

lemma map_zip_replicate:
  "length ys = n \<Longrightarrow> map f (zip (replicate n x) ys) = map (\<lambda>y. f (x, y)) ys"
  by (induction ys arbitrary: n) auto

lemma np_array_rect:
  assumes "cs \<noteq> []" and "\<forall>c \<in> set cs. length c = m" and "0 < m"
    and "\<forall>c \<in> set cs. \<forall>q \<in> set c. length q = k"
  shows "np_array cs = Inr \<lparr>shape = [length cs, m, k], items = cs\<rparr>"
proof -
  from assms(1) have hd_in: "hd cs \<in> set cs" by simp
  with assms(2) have len_hd: "length (hd cs) = m" by blast
  with assms(3) have hd_ne: "hd cs \<noteq> []" by auto
  then have "hd (hd cs) \<in> set (hd cs)" by simp
  with hd_in assms(4) have len_hh: "length (hd (hd cs)) = k" by blast
  have no_ragged1: "\<not> (\<exists>c \<in> set cs. length c \<noteq> length (hd cs))"
    using assms(2) len_hd by simp
  have no_ragged2: "\<not> (\<exists>q \<in> set (concat cs). length q \<noteq> length (hd (hd cs)))"
    using assms(4) len_hh by auto
  show ?thesis
    unfolding np_array_def using assms(1) hd_ne no_ragged1 no_ragged2 len_hd len_hh
    by simp
qed

lemma col_update_0:
  "0 < s2 \<Longrightarrow> col_update \<lparr>shape = [s0, s1, s2], items = X\<rparr> 0 g =
     Inr \<lparr>shape = [s0, s1, s2], items = map (map (\<lambda>q. q[0 := g (q ! 0)])) X\<rparr>"
  by (simp add: col_update_def axis_index_def)

lemma col_update_1:
  "1 < s2 \<Longrightarrow> col_update \<lparr>shape = [s0, s1, s2], items = X\<rparr> 1 g =
     Inr \<lparr>shape = [s0, s1, s2], items = map (map (\<lambda>q. q[1 := g (q ! 1)])) X\<rparr>"
  by (simp add: col_update_def axis_index_def)

lemma col_update_last:
  "col_update \<lparr>shape = [s0, s1, Suc k], items = X\<rparr> (- 1) g =
     Inr \<lparr>shape = [s0, s1, Suc k], items = map (map (\<lambda>q. q[k := g (q ! k)])) X\<rparr>"
  by (simp add: col_update_def axis_index_def)

lemma filled_items:
  assumes "\<forall>c \<in> set cs. length c = m" and "\<forall>c \<in> set cs. \<forall>q \<in> set c. length q = k"
  shows "map (\<lambda>(ca, cb). map (\<lambda>(qa, qb). qb @ drop (length qb) qa) (zip ca cb))
           (zip (map (map (\<lambda>q. q[k := z])) (replicate (length cs) (replicate m (replicate (Suc k) 0)))) cs)
         = map (map (\<lambda>q. q @ [z::real])) cs"
proof -
  have row: "(replicate (Suc k) (0::real))[k := z] = replicate k 0 @ [z]"
    by (simp add: replicate_append_same[symmetric] list_update_append)
  have rows: "map (map (\<lambda>q. q[k := z])) (replicate (length cs) (replicate m (replicate (Suc k) 0)))
      = replicate (length cs) (replicate m (replicate k 0 @ [z]))"
    by (simp only: map_replicate row)
  have point: "qb @ drop (length qb) (replicate k 0 @ [z]) = qb @ [z]" if "length qb = k" for qb
    using that by simp
  have chain: "map (\<lambda>(qa, qb). qb @ drop (length qb) qa) (zip (replicate m (replicate k 0 @ [z])) c)
      = map (\<lambda>q. q @ [z]) c" if "c \<in> set cs" for c
  proof -
    from that assms have len: "length c = m" and pts: "\<forall>q \<in> set c. length q = k" by auto
    have "map (\<lambda>(qa, qb). qb @ drop (length qb) qa) (zip (replicate m (replicate k 0 @ [z])) c)
        = map (\<lambda>qb. qb @ drop (length qb) (replicate k 0 @ [z])) c"
      by (simp only: map_zip_replicate[OF len] prod.case)
    also have "\<dots> = map (\<lambda>q. q @ [z]) c"
      by (rule map_cong[OF refl]) (use pts point in blast)
    finally show ?thesis .
  qed
  have "map (\<lambda>(ca, cb). map (\<lambda>(qa, qb). qb @ drop (length qb) qa) (zip ca cb))
           (zip (replicate (length cs) (replicate m (replicate k 0 @ [z]))) cs)
       = map (\<lambda>cb. map (\<lambda>(qa, qb). qb @ drop (length qb) qa) (zip (replicate m (replicate k 0 @ [z])) cb)) cs"
    by (simp only: map_zip_replicate[OF refl] prod.case)
  also have "\<dots> = map (map (\<lambda>q. q @ [z])) cs"
    by (rule map_cong[OF refl]) (use chain in blast)
  finally show ?thesis by (simp only: rows)
qed

lemma polyline_2d_to_3d_rect:
  assumes "points p \<noteq> []" and "\<forall>c \<in> set (points p). length c = m" and "0 < m"
    and "\<forall>c \<in> set (points p). \<forall>q \<in> set c. length q = k" and "0 < k"
  shows "polyline_2d_to_3d p md z =
     Inr \<lparr>label = label p, points3d = map (map (\<lambda>q. point_ops md (q @ [z]))) (points p)\<rparr>"
proof -
  define n where "n = length (points p)"
  define dx where "dx = fst (max_bound md) - fst (min_bound md)"
  define dy where "dy = snd (max_bound md) - snd (min_bound md)"
  define A0 where "A0 = \<lparr>shape = [n, m, k], items = points p\<rparr>"
  define X1 where "X1 = map (map (\<lambda>q. q[k := z])) (replicate n (replicate m (replicate (Suc k) 0)))"
  define X2 where "X2 = map (map (\<lambda>q. q @ [z])) (points p)"
  define X3 where "X3 = map (map (\<lambda>q. q[1 := q ! 1 * (- 1)])) X2"
  define X4 where "X4 = map (map (\<lambda>q. q[1 := q ! 1 + 1])) X3"
  define X5 where "X5 = map (map (\<lambda>q. q[0 := q ! 0 * dx])) X4"
  define X6 where "X6 = map (map (\<lambda>q. q[1 := q ! 1 * dy])) X5"
  define X7 where "X7 = map (map (\<lambda>q. q[0 := q ! 0 + fst (min_bound md)])) X6"
  define X8 where "X8 = map (map (\<lambda>q. q[1 := q ! 1 + snd (min_bound md)])) X7"
  define A where "A = (\<lambda>X. \<lparr>shape = [n, m, Suc k], items = X\<rparr>)"
  have k1: "1 < Suc k" and k0: "0 < Suc k" using assms(5) by auto
  have e0: "np_array (points p) = Inr A0"
    unfolding A0_def n_def by (rule np_array_rect[OF assms(1-4)])
  have t0: "tuple_get (shape A0) 0 = Inr n" and t1: "tuple_get (shape A0) 1 = Inr m"
    and t2: "tuple_get (shape A0) 2 = Inr k"
    by (simp_all add: tuple_get_def A0_def)
  have e1: "col_set (np_zeros (n, m, k + 1)) (- 1) z = Inr (A X1)"
    by (simp add: col_set_def np_zeros_def col_update_last A_def X1_def
        del: replicate.simps map_replicate)
  have e2: "set_all_but_last (A X1) A0 = Inr (A X2)"
    unfolding A_def A0_def X1_def X2_def n_def
    by (simp add: set_all_but_last_def filled_items[OF assms(2,4)]
        del: replicate.simps map_replicate)
  have e3: "col_imul (A X2) 1 (- 1) = Inr (A X3)"
    unfolding A_def X3_def col_imul_def by (rule col_update_1[OF k1])
  have e4: "col_iadd (A X3) 1 1 = Inr (A X4)"
    unfolding A_def X4_def col_iadd_def by (rule col_update_1[OF k1])
  have e5: "col_imul (A X4) 0 dx = Inr (A X5)"
    unfolding A_def X5_def col_imul_def by (rule col_update_0[OF k0])
  have e6: "col_imul (A X5) 1 dy = Inr (A X6)"
    unfolding A_def X6_def col_imul_def by (rule col_update_1[OF k1])
  have e7: "col_iadd (A X6) 0 (fst (min_bound md)) = Inr (A X7)"
    unfolding A_def X7_def col_iadd_def by (rule col_update_0[OF k0])
  have e8: "col_iadd (A X7) 1 (snd (min_bound md)) = Inr (A X8)"
    unfolding A_def X8_def col_iadd_def by (rule col_update_1[OF k1])
  have run: "polyline_2d_to_3d p md z = Inr \<lparr>label = label p, points3d = items (A X8)\<rparr>"
    unfolding polyline_2d_to_3d_def Let_def dx_def[symmetric] dy_def[symmetric]
    by (simp only: e0 t0 t1 t2 e1 e2 e3 e4 e5 e6 e7 e8 bind_Inr)
  have "X8 = map (map (\<lambda>q. point_ops md (q @ [z]))) (points p)"
    unfolding X8_def X7_def X6_def X5_def X4_def X3_def X2_def dx_def dy_def
    by (simp add: point_ops_def Let_def comp_def)
  then show ?thesis
    using run by (simp add: A_def)
qed

lemma point_ops_2d:
  "point_ops md ([u, v] @ [z]) =
     [u * (fst (max_bound md) - fst (min_bound md)) + fst (min_bound md),
      (1 - v) * (snd (max_bound md) - snd (min_bound md)) + snd (min_bound md), z]"
  by (simp add: point_ops_def)

lemma point_ops_1d:
  "point_ops md ([u] @ [z]) =
     [u * (fst (max_bound md) - fst (min_bound md)) + fst (min_bound md),
      (1 - z) * (snd (max_bound md) - snd (min_bound md)) + snd (min_bound md)]"
  by (simp add: point_ops_def)

lemma point_ops_ge2:
  assumes "2 \<le> length q"
  shows "point_ops md (q @ [z]) =
     [q ! 0 * (fst (max_bound md) - fst (min_bound md)) + fst (min_bound md),
      (1 - q ! 1) * (snd (max_bound md) - snd (min_bound md)) + snd (min_bound md)]
     @ drop 2 q @ [z]"
proof -
  from assms obtain u v r where q: "q = u # v # r"
    by (cases q; cases "tl q") auto
  show ?thesis by (simp add: q point_ops_def)
qed

lemma np_array_ragged:
  assumes "c1 \<in> set cs" and "c2 \<in> set cs" and "length c1 \<noteq> length c2"
  shows "np_array cs = Inl ValueError"
proof -
  from assms(1) have ne: "cs \<noteq> []" by auto
  have "length c1 \<noteq> length (hd cs) \<or> length c2 \<noteq> length (hd cs)"
    using assms(3) by auto
  with assms(1,2) have "\<exists>c \<in> set cs. length c \<noteq> length (hd cs)" by blast
  with ne show ?thesis by (simp add: np_array_def)
qed

lemma polyline_2d_to_3d_ragged:
  assumes "c1 \<in> set (points p)" and "c2 \<in> set (points p)" and "length c1 \<noteq> length c2"
  shows "polyline_2d_to_3d p md z = Inl ValueError"
  unfolding polyline_2d_to_3d_def Let_def np_array_ragged[OF assms] by simp

lemma polyline_2d_to_3d_all_empty:
  assumes "\<forall>c \<in> set (points p). c = []"
  shows "polyline_2d_to_3d p md z = Inl IndexError"
proof (cases "points p = []")
  case True
  then have "np_array (points p) = Inr \<lparr>shape = [0], items = []\<rparr>"
    by (simp add: np_array_def)
  then show ?thesis
    unfolding polyline_2d_to_3d_def Let_def by (simp add: tuple_get_def)
next
  case False
  then have "hd (points p) \<in> set (points p)" by simp
  with assms have hd: "hd (points p) = []" by blast
  have "length c = length (hd (points p))" if "c \<in> set (points p)" for c
  proof -
    from that assms have "c = []" by blast
    then show ?thesis by (simp only: hd)
  qed
  then have same: "\<not> (\<exists>c \<in> set (points p). length c \<noteq> length (hd (points p)))"
    by blast
  have "np_array (points p) = Inr \<lparr>shape = [length (points p), 0], items = points p\<rparr>"
    unfolding np_array_def by (simp only: if_not_P[OF False] if_not_P[OF same] if_P[OF hd])
  then show ?thesis
    unfolding polyline_2d_to_3d_def Let_def by (simp add: tuple_get_def)
qed

lemma polyline_2d_to_3d_no_coordinate:
  assumes "points p \<noteq> []" and "\<forall>c \<in> set (points p). length c = m" and "0 < m"
    and "\<forall>c \<in> set (points p). \<forall>q \<in> set c. length q = 0"
  shows "polyline_2d_to_3d p md z = Inl IndexError"
proof -
  note arr = np_array_rect[OF assms]
  have fill: "set_all_but_last
       \<lparr>shape = [length (points p), m, Suc 0], items = X\<rparr>
       \<lparr>shape = [length (points p), m, 0], items = points p\<rparr> =
      Inr \<lparr>shape = [length (points p), m, Suc 0],
           items = map (\<lambda>(ca, cb). map (\<lambda>(qa, qb). qb @ drop (length qb) qa) (zip ca cb))
                   (zip X (points p))\<rparr>" for X
    by (simp add: set_all_but_last_def)
  show ?thesis
    unfolding polyline_2d_to_3d_def Let_def arr
    by (simp add: tuple_get_def col_set_def np_zeros_def col_update_last fill col_imul_def
        del: replicate.simps map_replicate)
      (simp add: col_update_def axis_index_def)
qed

text \<open>A call that returns was given a dense array of points with at least one coordinate.\<close>

lemma polyline_2d_to_3d_returns:
  assumes "polyline_2d_to_3d p md z = Inr r"
  shows "points p \<noteq> [] \<and> hd (points p) \<noteq> [] \<and> hd (hd (points p)) \<noteq> [] \<and>
         (\<forall>c \<in> set (points p). length c = length (hd (points p))) \<and>
         (\<forall>c \<in> set (points p). \<forall>q \<in> set c. length q = length (hd (hd (points p))))"
proof -
  have same: "\<forall>c \<in> set (points p). length c = length (hd (points p))"
  proof (rule ccontr)
    assume "\<not> ?thesis"
    then obtain c where c: "c \<in> set (points p)" "length c \<noteq> length (hd (points p))" by blast
    then have "hd (points p) \<in> set (points p)" by (cases "points p") auto
    from polyline_2d_to_3d_ragged[OF c(1) this c(2)] assms show False by simp
  qed
  have not_all_empty: "\<not> (\<forall>c \<in> set (points p). c = [])"
    using polyline_2d_to_3d_all_empty[of p md z] assms by auto
  then have ne: "points p \<noteq> []" by auto
  then have hd_in: "hd (points p) \<in> set (points p)" by simp
  have hd_ne: "hd (points p) \<noteq> []"
  proof
    assume e: "hd (points p) = []"
    have "c = []" if "c \<in> set (points p)" for c
    proof -
      from that same have "length c = length (hd (points p))" by blast
      then show ?thesis by (simp add: e)
    qed
    with not_all_empty show False by blast
  qed
  then have hh_in: "hd (hd (points p)) \<in> set (hd (points p))" by simp
  have pts: "\<forall>c \<in> set (points p). \<forall>q \<in> set c. length q = length (hd (hd (points p)))"
  proof (rule ccontr)
    assume "\<not> ?thesis"
    then have "\<exists>q \<in> set (concat (points p)). length q \<noteq> length (hd (hd (points p)))" by auto
    then have rag: "\<exists>q \<in> set (concat (points p)). length q \<noteq> length (hd (hd (points p)))" .
    have same': "\<not> (\<exists>c \<in> set (points p). length c \<noteq> length (hd (points p)))"
      using same by blast
    have "np_array (points p) = Inl ValueError"
      unfolding np_array_def
      by (simp only: if_not_P[OF ne] if_not_P[OF same'] if_not_P[OF hd_ne] if_P[OF rag])
    with assms show False by (simp add: polyline_2d_to_3d_def Let_def)
  qed
  have hh_ne: "hd (hd (points p)) \<noteq> []"
  proof
    assume "hd (hd (points p)) = []"
    with pts have "\<forall>c \<in> set (points p). \<forall>q \<in> set c. length q = 0" by simp
    from polyline_2d_to_3d_no_coordinate[OF ne same _ this, of md z] hd_ne assms
    show False by simp
  qed
  from ne hd_ne hh_ne same pts show ?thesis by (intro conjI)
qed

lemma polyline_2d_to_3d_Inr:
  assumes "polyline_2d_to_3d p md z = Inr r"
  shows "r = \<lparr>label = label p, points3d = map (map (\<lambda>q. point_ops md (q @ [z]))) (points p)\<rparr>"
proof -
  note ret = polyline_2d_to_3d_returns[OF assms]
  from ret have ne: "points p \<noteq> []" by (rule conjunct1)
  from ret have "hd (points p) \<noteq> []" by blast
  then have m: "0 < length (hd (points p))" by simp
  from ret have "hd (hd (points p)) \<noteq> []" by blast
  then have k: "0 < length (hd (hd (points p)))" by simp
  from ret have same: "\<forall>c \<in> set (points p). length c = length (hd (points p))"
    by blast
  from ret have pts: "\<forall>c \<in> set (points p). \<forall>q \<in> set c. length q = length (hd (hd (points p)))"
    by blast
  from polyline_2d_to_3d_rect[OF ne same m pts k, of md z] assms show ?thesis
    by (simp only: sum.inject)
qed

subsection \<open>The grouping loop\<close>

lemma bind_eq_Inr: "bind r f = Inr y \<Longrightarrow> \<exists>x. r = Inr x \<and> f x = Inr y"
  by (cases r) (simp_all add: bind_def)

lemma convert_polylines_ok:
  "\<forall>p \<in> set ps. \<exists>r. polyline_2d_to_3d p md z = Inr r \<Longrightarrow>
   \<exists>s. convert_polylines ps md z acc = Inr s"
proof (induction ps arbitrary: acc)
  case Nil
  show ?case by simp
next
  case (Cons p ps)
  from Cons.prems obtain r where r: "polyline_2d_to_3d p md z = Inr r" by auto
  from Cons.prems have "\<forall>p \<in> set ps. \<exists>r. polyline_2d_to_3d p md z = Inr r" by simp
  from Cons.IH[OF this, of "acc @ [r]"] show ?case by (simp add: r)
qed

lemma convert_sample_ok:
  assumes "\<forall>c. sp = Some c \<longrightarrow> (\<forall>p \<in> set (polylines c). \<exists>r. polyline_2d_to_3d p md z = Inr r)"
  shows "\<exists>s. convert_sample sp md z = Inr s"
proof (cases sp)
  case None
  then show ?thesis by (simp add: convert_sample_def)
next
  case (Some c)
  with assms have "\<forall>p \<in> set (polylines c). \<exists>r. polyline_2d_to_3d p md z = Inr r" by simp
  from convert_polylines_ok[OF this, of "[]"] Some show ?thesis
    by (simp add: convert_sample_def)
qed

lemma grouping_loop_ok:
  "\<forall>e \<in> set es. \<exists>s. convert_sample (fst e) (fst (snd e)) z = Inr s \<Longrightarrow>
   \<exists>d. grouping_loop es z d0 = Inr d"
proof (induction es arbitrary: d0)
  case Nil
  show ?case by simp
next
  case (Cons e es)
  obtain sp md g where e: "e = (sp, md, g)" by (cases e) auto
  from Cons.prems e obtain s where s: "convert_sample sp md z = Inr s" by auto
  from Cons.prems have "\<forall>e \<in> set es. \<exists>s. convert_sample (fst e) (fst (snd e)) z = Inr s"
    by simp
  from Cons.IH[OF this] show ?case by (simp add: e s)
qed

lemma grouping_loop_dom:
  "grouping_loop es z d0 = Inr d \<Longrightarrow> dom d = dom d0 \<union> set (map (\<lambda>e. snd (snd e)) es)"
proof (induction es arbitrary: d0)
  case Nil
  then show ?case by simp
next
  case (Cons e es)
  obtain sp md g where e: "e = (sp, md, g)" by (cases e) auto
  from Cons.prems e obtain s where
    "grouping_loop es z (d0(g \<mapsto> \<lparr>polylines = s\<rparr>)) = Inr d"
    by (auto dest: bind_eq_Inr)
  from Cons.IH[OF this] show ?case by (auto simp add: e)
qed

lemma grouping_loop_other:
  "grouping_loop es z d0 = Inr d \<Longrightarrow> g \<notin> set (map (\<lambda>e. snd (snd e)) es) \<Longrightarrow> d g = d0 g"
proof (induction es arbitrary: d0)
  case Nil
  then show ?case by simp
next
  case (Cons e es)
  obtain sp md g' where e: "e = (sp, md, g')" by (cases e) auto
  from Cons.prems(1) e obtain s where
    step: "grouping_loop es z (d0(g' \<mapsto> \<lparr>polylines = s\<rparr>)) = Inr d"
    by (auto dest: bind_eq_Inr)
  from Cons.prems(2) e have "g \<noteq> g'" and "g \<notin> set (map (\<lambda>e. snd (snd e)) es)" by auto
  with Cons.IH[OF step] show ?case by simp
qed

lemma grouping_loop_last:
  "grouping_loop (es1 @ (sp, md, g) # es2) z d0 = Inr d \<Longrightarrow>
   g \<notin> set (map (\<lambda>e. snd (snd e)) es2) \<Longrightarrow>
   \<exists>s. convert_sample sp md z = Inr s \<and> d g = Some \<lparr>polylines = s\<rparr>"
proof (induction es1 arbitrary: d0)
  case Nil
  from Nil(1) obtain s where s: "convert_sample sp md z = Inr s"
    and step: "grouping_loop es2 z (d0(g \<mapsto> \<lparr>polylines = s\<rparr>)) = Inr d"
    by (auto dest: bind_eq_Inr)
  from grouping_loop_other[OF step Nil(2)] s show ?case by simp
next
  case (Cons e es1)
  obtain sp' md' g' where e: "e = (sp', md', g')" by (cases e) auto
  from Cons.prems(1) e obtain s where
    step: "grouping_loop (es1 @ (sp, md, g) # es2) z (d0(g' \<mapsto> \<lparr>polylines = s\<rparr>)) = Inr d"
    by (auto dest: bind_eq_Inr)
  from Cons.IH[OF step Cons.prems(2)] show ?case .
qed

lemma zip3_nth:
  assumes "length a = length c" and "length b = length c" and "i < length c"
  shows "zip a (zip b c) = take i (zip a (zip b c)) @ (a ! i, b ! i, c ! i) # drop (Suc i) (zip a (zip b c))"
proof -
  have "i < length (zip a (zip b c))" using assms by simp
  from id_take_nth_drop[OF this] show ?thesis using assms by simp
qed

lemma zip3_ids:
  assumes "length a = length c" and "length b = length c"
  shows "map (\<lambda>e. snd (snd e)) (zip a (zip b c)) = c"
proof -
  have "map (\<lambda>e. snd (snd e)) (zip a (zip b c)) = map snd (map snd (zip a (zip b c)))"
    by simp
  also have "\<dots> = c" using assms by (simp del: map_map)
  finally show ?thesis .
qed

lemma zip3_ids_drop:
  assumes "length a = length c" and "length b = length c"
  shows "map (\<lambda>e. snd (snd e)) (drop n (zip a (zip b c))) = drop n c"
  by (simp only: drop_map[symmetric] zip3_ids[OF assms])

lemma load_annotation_ok:
  assumes len: "length a = length c" "length b = length c"
    and ok: "\<forall>i<length c. \<forall>x. a ! i = Some x \<longrightarrow>
      (\<forall>p \<in> set (polylines x). \<exists>r. polyline_2d_to_3d p (b ! i) z = Inr r)"
  shows "\<exists>d. load_annotation_polylines_3d a b c z = Inr d"
proof -
  have "\<exists>s. convert_sample (fst e) (fst (snd e)) z = Inr s" if "e \<in> set (zip a (zip b c))" for e
  proof -
    from that obtain i where i: "i < length (zip a (zip b c))" and e: "e = zip a (zip b c) ! i"
      by (auto simp add: in_set_conv_nth)
    from i len have ic: "i < length c" by simp
    with e len have "e = (a ! i, b ! i, c ! i)" by simp
    with ok ic show ?thesis by (simp add: convert_sample_ok)
  qed
  then show ?thesis
    unfolding load_annotation_polylines_3d_def by (intro grouping_loop_ok) blast
qed

lemma load_annotation_last:
  assumes len: "length a = length c" "length b = length c"
    and j: "j < length c" and last: "\<forall>k. j < k \<and> k < length c \<longrightarrow> c ! k \<noteq> c ! j"
    and run: "load_annotation_polylines_3d a b c z = Inr d"
  shows "\<exists>s. convert_sample (a ! j) (b ! j) z = Inr s \<and> d (c ! j) = Some \<lparr>polylines = s\<rparr>"
proof -
  have notin: "c ! j \<notin> set (map (\<lambda>e. snd (snd e)) (drop (Suc j) (zip a (zip b c))))"
  proof
    assume "c ! j \<in> set (map (\<lambda>e. snd (snd e)) (drop (Suc j) (zip a (zip b c))))"
    then have "c ! j \<in> set (drop (Suc j) c)" by (simp only: zip3_ids_drop[OF len])
    then obtain n where n: "n < length (drop (Suc j) c)" and eq: "drop (Suc j) c ! n = c ! j"
      by (auto simp add: in_set_conv_nth)
    from n have "Suc j + n < length c" by simp
    moreover from eq n have "c ! (Suc j + n) = c ! j" by simp
    ultimately show False using last by (metis add_Suc less_add_Suc1)
  qed
  from run have "grouping_loop (take j (zip a (zip b c)) @ (a ! j, b ! j, c ! j) #
      drop (Suc j) (zip a (zip b c))) z Map.empty = Inr d"
    unfolding load_annotation_polylines_3d_def using zip3_nth[OF len j] by simp
  from grouping_loop_last[OF this notin] show ?thesis .
qed

lemma load_annotation_dom:
  assumes "length a = length c" "length b = length c"
    and "load_annotation_polylines_3d a b c z = Inr d"
  shows "dom d = set c"
proof -
  from assms(3) have "grouping_loop (zip a (zip b c)) z Map.empty = Inr d"
    by (simp only: load_annotation_polylines_3d_def)
  from grouping_loop_dom[OF this]
  have "dom d = {} \<union> set (map (\<lambda>e. snd (snd e)) (zip a (zip b c)))"
    by (simp only: dom_empty)
  then show ?thesis by (simp only: zip3_ids[OF assms(1,2)] Un_empty_left)
qed

section \<open>The claims\<close>

subsection \<open>C1: the formula of the back-projection\<close>

text \<open>
  Claim C1. Let the chains of the polyline all have the same positive length and let every
  point have exactly two coordinates. Whatever the metadata and the plane height are, the
  call on a polyline with at least one chain returns, and the output point at the place
  of the input point \<open>(u, v)\<close> is
  \<open>(u * (max_bound.x - min_bound.x) + min_bound.x,
    (1 - v) * (max_bound.y - min_bound.y) + min_bound.y, plane_height)\<close>.
  (With no chain at all there is no output point: the call raises \<^verbatim>\<open>IndexError\<close>.)
  With \<open>min_bound = (0, 0)\<close>, \<open>max_bound = (10, 20)\<close> and plane height \<open>-1.6\<close>,
  the point \<open>(0, 0)\<close> is mapped to \<open>(0, 20, -1.6)\<close> and \<open>(1, 1)\<close> to
  \<open>(10, 0, -1.6)\<close>: this is the instance below.
\<close>

theorem polyline_2d_to_3d_formula:
  assumes "\<forall>c \<in> set (points p). length c = m" and "0 < m"
    and "\<forall>c \<in> set (points p). \<forall>q \<in> set c. length q = 2"
  shows "polyline_2d_to_3d p md z =
     (if points p = [] then Inl IndexError
      else Inr \<lparr>label = label p,
                points3d = map (map (\<lambda>q.
                  [q ! 0 * (fst (max_bound md) - fst (min_bound md)) + fst (min_bound md),
                   (1 - q ! 1) * (snd (max_bound md) - snd (min_bound md)) + snd (min_bound md),
                   z])) (points p)\<rparr>)"
proof (cases "points p = []")
  case True
  then have "\<forall>c \<in> set (points p). c = []" by simp
  from polyline_2d_to_3d_all_empty[OF this] True show ?thesis by simp
next
  case False
  have pt: "point_ops md (q @ [z]) =
      [q ! 0 * (fst (max_bound md) - fst (min_bound md)) + fst (min_bound md),
       (1 - q ! 1) * (snd (max_bound md) - snd (min_bound md)) + snd (min_bound md), z]"
    if "length q = 2" for q
    using point_ops_ge2[of q md z] that by simp
  have "map (map (\<lambda>q. point_ops md (q @ [z]))) (points p) =
      map (map (\<lambda>q.
        [q ! 0 * (fst (max_bound md) - fst (min_bound md)) + fst (min_bound md),
         (1 - q ! 1) * (snd (max_bound md) - snd (min_bound md)) + snd (min_bound md),
         z])) (points p)"
    by (intro map_cong refl) (use assms(3) pt in blast)
  with polyline_2d_to_3d_rect[OF False assms(1,2,3), of md z] False show ?thesis by simp
qed

theorem polyline_2d_to_3d_formula_witness:
  "polyline_2d_to_3d \<lparr>label = ''lane'', points = [[[0, 0], [1, 1]]]\<rparr>
     \<lparr>min_bound = (0, 0), max_bound = (10, 20), width = 1920, height = 1080\<rparr> (- 16 / 10) =
   Inr \<lparr>label = ''lane'', points3d = [[[0, 20, - 16 / 10], [10, 0, - 16 / 10]]]\<rparr>"
  using polyline_2d_to_3d_formula[of "\<lparr>label = ''lane'', points = [[[0, 0], [1, 1]]]\<rparr>" 2
      "\<lparr>min_bound = (0, 0), max_bound = (10, 20), width = 1920, height = 1080\<rparr>" "- 16 / 10"]
  by simp

subsection \<open>C2: empty input\<close>

text \<open>
  Claim C2 says that a polyline with no chain, or with some or all chains empty, is
  converted without an exception into a polyline of the same empty structure. The code
  does not do that. With no chain the array has shape \<open>(0,)\<close> and \<^verbatim>\<open>shape[1]\<close>
  raises \<^verbatim>\<open>IndexError\<close>; with two empty chains the shape is \<open>(2, 0)\<close> and
  \<^verbatim>\<open>shape[2]\<close> raises \<^verbatim>\<open>IndexError\<close>; with an empty and a non-empty chain
  the nesting is ragged and \<^verbatim>\<open>np.array\<close> fails.
\<close>

theorem polyline_2d_to_3d_empty_counterexample:
  "polyline_2d_to_3d \<lparr>label = ''lane'', points = []\<rparr>
     \<lparr>min_bound = (0, 0), max_bound = (10, 20), width = 1920, height = 1080\<rparr> (- 16 / 10) =
   Inl IndexError \<and>
   polyline_2d_to_3d \<lparr>label = ''lane'', points = [[], []]\<rparr>
     \<lparr>min_bound = (0, 0), max_bound = (10, 20), width = 1920, height = 1080\<rparr> (- 16 / 10) =
   Inl IndexError \<and>
   polyline_2d_to_3d \<lparr>label = ''lane'', points = [[], [[0, 0]]]\<rparr>
     \<lparr>min_bound = (0, 0), max_bound = (10, 20), width = 1920, height = 1080\<rparr> (- 16 / 10) =
   Inl ValueError"
  by (simp add: polyline_2d_to_3d_def np_array_def tuple_get_def)

text \<open>
  Claim C2 as amended. For every polyline with no chain or with an empty chain, and for all
  metadata and plane heights, the call raises an exception and returns no polyline; when
  there is no chain or every chain is empty the exception is \<^verbatim>\<open>IndexError\<close>.
\<close>

theorem polyline_2d_to_3d_empty_fails:
  assumes "points p = [] \<or> [] \<in> set (points p)"
  shows "(\<exists>e. polyline_2d_to_3d p md z = Inl e) \<and>
         ((\<forall>c \<in> set (points p). c = []) \<longrightarrow> polyline_2d_to_3d p md z = Inl IndexError)"
proof (cases "\<forall>c \<in> set (points p). c = []")
  case True
  from polyline_2d_to_3d_all_empty[OF this] show ?thesis by simp
next
  case False
  then obtain c where c: "c \<in> set (points p)" "c \<noteq> []" by blast
  then have "points p \<noteq> []" by auto
  with assms have e: "[] \<in> set (points p)" by simp
  from c(2) have "length c \<noteq> length ([] :: real list list)" by simp
  from polyline_2d_to_3d_ragged[OF c(1) e this] False show ?thesis by simp
qed

theorem polyline_2d_to_3d_empty_fails_witness:
  "polyline_2d_to_3d \<lparr>label = ''lane'', points = [[], []]\<rparr>
     \<lparr>min_bound = (0, 0), max_bound = (10, 20), width = 1920, height = 1080\<rparr> (- 16 / 10) =
   Inl IndexError"
  using polyline_2d_to_3d_empty_fails[of "\<lparr>label = ''lane'', points = [[], []]\<rparr>"
      "\<lparr>min_bound = (0, 0), max_bound = (10, 20), width = 1920, height = 1080\<rparr>" "- 16 / 10"]
  by simp

subsection \<open>C3: points with other than two coordinates\<close>

text \<open>
  Claim C3 says that a polyline whose points have other than two coordinates is rejected
  with an error. The code does not check the number of coordinates: the result array is
  allocated with one coordinate more than the input has, whatever that number is. Points
  with three coordinates come back with four (the third one copied, the plane height
  appended), and points with one coordinate come back with two (the plane height stands
  at index 1 and goes through the arithmetic of the second coordinate).
\<close>

theorem polyline_2d_to_3d_dimension_counterexample:
  "polyline_2d_to_3d \<lparr>label = ''lane'', points = [[[0, 0, 5], [1, 1, 7]]]\<rparr>
     \<lparr>min_bound = (0, 0), max_bound = (10, 20), width = 1920, height = 1080\<rparr> (- 16 / 10) =
   Inr \<lparr>label = ''lane'', points3d = [[[0, 20, 5, - 16 / 10], [10, 0, 7, - 16 / 10]]]\<rparr> \<and>
   polyline_2d_to_3d \<lparr>label = ''lane'', points = [[[0], [1]]]\<rparr>
     \<lparr>min_bound = (0, 0), max_bound = (10, 20), width = 1920, height = 1080\<rparr> (- 16 / 10) =
   Inr \<lparr>label = ''lane'', points3d = [[[0, 52], [10, 52]]]\<rparr>"
  by (simp add: polyline_2d_to_3d_def np_array_def tuple_get_def np_zeros_def col_set_def
      col_imul_def col_iadd_def col_update_def axis_index_def set_all_but_last_def)

text \<open>
  Claim C3 as amended. Let the polyline have at least one chain, all chains of the same
  positive length, and all points with the same number \<open>k\<close> of coordinates. The call
  raises \<^verbatim>\<open>IndexError\<close> exactly when \<open>k = 0\<close>. For \<open>k \<ge> 2\<close> it returns the
  points with \<open>k + 1\<close> coordinates: the first two transformed by the formula of C1, the
  others unchanged, the plane height appended. For \<open>k = 1\<close> it returns the points with
  two coordinates: the first transformed, the second computed from the plane height.
\<close>

theorem polyline_2d_to_3d_any_dimension:
  assumes "points p \<noteq> []" and "\<forall>c \<in> set (points p). length c = m" and "0 < m"
    and "\<forall>c \<in> set (points p). \<forall>q \<in> set c. length q = k"
  shows "polyline_2d_to_3d p md z =
     (if k = 0 then Inl IndexError
      else if k = 1 then
        Inr \<lparr>label = label p,
             points3d = map (map (\<lambda>q.
               [q ! 0 * (fst (max_bound md) - fst (min_bound md)) + fst (min_bound md),
                (1 - z) * (snd (max_bound md) - snd (min_bound md)) + snd (min_bound md)]))
               (points p)\<rparr>
      else
        Inr \<lparr>label = label p,
             points3d = map (map (\<lambda>q.
               [q ! 0 * (fst (max_bound md) - fst (min_bound md)) + fst (min_bound md),
                (1 - q ! 1) * (snd (max_bound md) - snd (min_bound md)) + snd (min_bound md)]
               @ drop 2 q @ [z])) (points p)\<rparr>)"
proof -
  consider "k = 0" | "k = 1" | "2 \<le> k" by linarith
  then show ?thesis
  proof cases
    case 1
    with assms(4) have "\<forall>c \<in> set (points p). \<forall>q \<in> set c. length q = 0" by simp
    from polyline_2d_to_3d_no_coordinate[OF assms(1-3) this] 1 show ?thesis by simp
  next
    case 2
    have pt: "point_ops md (q @ [z]) =
        [q ! 0 * (fst (max_bound md) - fst (min_bound md)) + fst (min_bound md),
         (1 - z) * (snd (max_bound md) - snd (min_bound md)) + snd (min_bound md)]"
      if "length q = 1" for q
    proof -
      from that obtain u where "q = [u]" by (cases q) auto
      then show ?thesis using point_ops_1d[of md u z] by simp
    qed
    have "map (map (\<lambda>q. point_ops md (q @ [z]))) (points p) =
        map (map (\<lambda>q.
          [q ! 0 * (fst (max_bound md) - fst (min_bound md)) + fst (min_bound md),
           (1 - z) * (snd (max_bound md) - snd (min_bound md)) + snd (min_bound md)]))
          (points p)"
      by (intro map_cong refl) (use assms(4) 2 pt in blast)
    moreover have "0 < k" using 2 by simp
    note polyline_2d_to_3d_rect[OF assms this, of md z]
    ultimately show ?thesis using 2 by simp
  next
    case 3
    have pt: "point_ops md (q @ [z]) =
        [q ! 0 * (fst (max_bound md) - fst (min_bound md)) + fst (min_bound md),
         (1 - q ! 1) * (snd (max_bound md) - snd (min_bound md)) + snd (min_bound md)]
        @ drop 2 q @ [z]"
      if "length q = k" for q
      using that 3 by (intro point_ops_ge2) simp
    have "map (map (\<lambda>q. point_ops md (q @ [z]))) (points p) =
        map (map (\<lambda>q.
          [q ! 0 * (fst (max_bound md) - fst (min_bound md)) + fst (min_bound md),
           (1 - q ! 1) * (snd (max_bound md) - snd (min_bound md)) + snd (min_bound md)]
          @ drop 2 q @ [z])) (points p)"
      by (intro map_cong refl) (use assms(4) pt in blast)
    moreover have "0 < k" using 3 by simp
    note polyline_2d_to_3d_rect[OF assms this, of md z]
    ultimately show ?thesis using 3 by simp
  qed
qed

theorem polyline_2d_to_3d_any_dimension_witness:
  "polyline_2d_to_3d \<lparr>label = ''lane'', points = [[[0, 0, 5], [1, 1, 7]]]\<rparr>
     \<lparr>min_bound = (0, 0), max_bound = (10, 20), width = 1920, height = 1080\<rparr> (- 16 / 10) =
   Inr \<lparr>label = ''lane'', points3d = [[[0, 20, 5, - 16 / 10], [10, 0, 7, - 16 / 10]]]\<rparr>"
  using polyline_2d_to_3d_any_dimension[of "\<lparr>label = ''lane'', points = [[[0, 0, 5], [1, 1, 7]]]\<rparr>" 2 3
      "\<lparr>min_bound = (0, 0), max_bound = (10, 20), width = 1920, height = 1080\<rparr>" "- 16 / 10"]
  by simp

subsection \<open>C5: the height of every output point\<close>

text \<open>
  Claim C5. For a well-formed input polyline (chains of one positive length, points with
  two coordinates) and any plane height, the call on a polyline with at least one chain
  returns, and every point of a returned polyline has three coordinates, the third of
  which is exactly the plane height.
\<close>

theorem polyline_2d_to_3d_constant_z:
  assumes "\<forall>c \<in> set (points p). length c = m" and "0 < m"
    and "\<forall>c \<in> set (points p). \<forall>q \<in> set c. length q = 2"
  shows "(points p \<noteq> [] \<longrightarrow> (\<exists>r. polyline_2d_to_3d p md z = Inr r)) \<and>
         (\<forall>r. polyline_2d_to_3d p md z = Inr r \<longrightarrow>
            (\<forall>c \<in> set (points3d r). \<forall>q \<in> set c. length q = 3 \<and> q ! 2 = z))"
proof (intro conjI impI allI)
  assume "points p \<noteq> []"
  from polyline_2d_to_3d_rect[OF this assms(1,2,3), of md z]
  show "\<exists>r. polyline_2d_to_3d p md z = Inr r" by simp
next
  fix r
  assume "polyline_2d_to_3d p md z = Inr r"
  from polyline_2d_to_3d_Inr[OF this]
  have r: "points3d r = map (map (\<lambda>q. point_ops md (q @ [z]))) (points p)" by simp
  show "\<forall>c \<in> set (points3d r). \<forall>q \<in> set c. length q = 3 \<and> q ! 2 = z"
  proof (intro ballI)
    fix c q
    assume "c \<in> set (points3d r)" and q: "q \<in> set c"
    then obtain c' where c': "c' \<in> set (points p)"
      and c: "c = map (\<lambda>q. point_ops md (q @ [z])) c'"
      by (auto simp add: r)
    from q c obtain q' where q': "q' \<in> set c'" and qq: "q = point_ops md (q' @ [z])"
      by auto
    from assms(3) c' q' have "length q' = 2" by blast
    then show "length q = 3 \<and> q ! 2 = z"
      using point_ops_ge2[of q' md z] by (simp add: qq)
  qed
qed

theorem polyline_2d_to_3d_constant_z_witness:
  "\<exists>r. polyline_2d_to_3d \<lparr>label = ''lane'', points = [[[0, 0], [1, 1]], [[1, 0], [0, 1]]]\<rparr>
     \<lparr>min_bound = (0, 0), max_bound = (10, 20), width = 1920, height = 1080\<rparr> (- 16 / 10) = Inr r \<and>
     (\<forall>c \<in> set (points3d r). \<forall>q \<in> set c. length q = 3 \<and> q ! 2 = - 16 / 10)"
  using polyline_2d_to_3d_constant_z[of
      "\<lparr>label = ''lane'', points = [[[0, 0], [1, 1]], [[1, 0], [0, 1]]]\<rparr>" 2
      "\<lparr>min_bound = (0, 0), max_bound = (10, 20), width = 1920, height = 1080\<rparr>" "- 16 / 10"]
  by auto

subsection \<open>C6: label and shape are kept\<close>

text \<open>
  Claim C6. The call on a well-formed input polyline (at least one chain, chains of one
  positive length, points with two coordinates) returns; and whenever the call returns,
  the result has the label of the input, as many chains as the input, and in every chain
  as many points as the input chain at the same place.
\<close>

theorem polyline_2d_to_3d_shape_label:
  "(points p \<noteq> [] \<and> 0 < m \<and> (\<forall>c \<in> set (points p). length c = m) \<and>
      (\<forall>c \<in> set (points p). \<forall>q \<in> set c. length q = 2)
      \<longrightarrow> (\<exists>r. polyline_2d_to_3d p md z = Inr r)) \<and>
   (\<forall>r. polyline_2d_to_3d p md z = Inr r \<longrightarrow>
      label r = label p \<and> length (points3d r) = length (points p) \<and>
      (\<forall>i<length (points p). length (points3d r ! i) = length (points p ! i)))"
proof -
  have returns: "\<exists>r. polyline_2d_to_3d p md z = Inr r"
    if "points p \<noteq> [] \<and> 0 < m \<and> (\<forall>c \<in> set (points p). length c = m) \<and>
      (\<forall>c \<in> set (points p). \<forall>q \<in> set c. length q = 2)"
  proof -
    from that have "points p \<noteq> []" and "\<forall>c \<in> set (points p). length c = m" and "0 < m"
      and "\<forall>c \<in> set (points p). \<forall>q \<in> set c. length q = 2" by blast+
    from polyline_2d_to_3d_rect[OF this, of md z] show ?thesis by simp
  qed
  have shape: "label r = label p \<and> length (points3d r) = length (points p) \<and>
      (\<forall>i<length (points p). length (points3d r ! i) = length (points p ! i))"
    if "polyline_2d_to_3d p md z = Inr r" for r
    by (simp add: polyline_2d_to_3d_Inr[OF that])
  from returns shape show ?thesis by blast
qed

theorem polyline_2d_to_3d_shape_label_witness:
  "\<exists>r. polyline_2d_to_3d \<lparr>label = ''lane'', points = [[[0, 0], [1, 1]], [[1, 0], [0, 1]]]\<rparr>
     \<lparr>min_bound = (0, 0), max_bound = (10, 20), width = 1920, height = 1080\<rparr> (- 16 / 10) = Inr r \<and>
     label r = ''lane'' \<and> length (points3d r) = 2 \<and>
     length (points3d r ! 0) = 2 \<and> length (points3d r ! 1) = 2"
proof -
  note t = polyline_2d_to_3d_shape_label[of
      "\<lparr>label = ''lane'', points = [[[0, 0], [1, 1]], [[1, 0], [0, 1]]]\<rparr>" 2
      "\<lparr>min_bound = (0, 0), max_bound = (10, 20), width = 1920, height = 1080\<rparr>" "- 16 / 10"]
  from t obtain r where r: "polyline_2d_to_3d
      \<lparr>label = ''lane'', points = [[[0, 0], [1, 1]], [[1, 0], [0, 1]]]\<rparr>
      \<lparr>min_bound = (0, 0), max_bound = (10, 20), width = 1920, height = 1080\<rparr> (- 16 / 10) = Inr r"
    by auto
  with t have lab: "label r = ''lane''" and len: "length (points3d r) = 2"
    and chains: "\<forall>i<2. length (points3d r ! i) = length ([[[0, 0], [1, 1]], [[1, 0], [0, 1 :: real]]] ! i)"
    by simp_all
  from chains[rule_format, of 0] have c0: "length (points3d r ! 0) = 2" by simp
  from chains[rule_format, of 1] have c1: "length (points3d r ! 1) = 2" by simp
  from r lab len c0 c1 show ?thesis by blast
qed

subsection \<open>C7: the map of one point is affine\<close>

text \<open>
  Claim C7. For fixed metadata and plane height, let \<open>P1\<close> and \<open>P2\<close> be the points
  the call returns for the 2D points \<open>p1 = (u1, v1)\<close> and \<open>p2 = (u2, v2)\<close>. For
  every scalar \<open>t\<close>, the call on the interpolated point \<open>lerp p1 p2 t\<close> returns the
  interpolated point \<open>lerp P1 P2 t\<close>. (The arithmetic is that of the real numbers; the
  rounding of floating-point numbers is not part of this model.)
\<close>

theorem polyline_2d_to_3d_affine:
  "\<exists>P1 P2.
     polyline_2d_to_3d \<lparr>label = l, points = [[[u1, v1]]]\<rparr> md z =
       Inr \<lparr>label = l, points3d = [[P1]]\<rparr> \<and>
     polyline_2d_to_3d \<lparr>label = l, points = [[[u2, v2]]]\<rparr> md z =
       Inr \<lparr>label = l, points3d = [[P2]]\<rparr> \<and>
     polyline_2d_to_3d \<lparr>label = l, points = [[lerp [u1, v1] [u2, v2] t]]\<rparr> md z =
       Inr \<lparr>label = l, points3d = [[lerp P1 P2 t]]\<rparr>"
proof -
  have one: "polyline_2d_to_3d \<lparr>label = l, points = [[[u, v]]]\<rparr> md z =
      Inr \<lparr>label = l, points3d = [[point_ops md ([u, v] @ [z])]]\<rparr>" for u v
    using polyline_2d_to_3d_rect[of "\<lparr>label = l, points = [[[u, v]]]\<rparr>" 1 2 md z] by simp
  have pt: "point_ops md [u, v, z] =
      [u * (fst (max_bound md) - fst (min_bound md)) + fst (min_bound md),
       (1 - v) * (snd (max_bound md) - snd (min_bound md)) + snd (min_bound md), z]" for u v
    using point_ops_2d[of md u v z] by simp
  have mix: "lerp (point_ops md ([u1, v1] @ [z])) (point_ops md ([u2, v2] @ [z])) t =
      point_ops md ([u1 + t * (u2 - u1), v1 + t * (v2 - v1)] @ [z])"
    by (simp add: pt lerp_def algebra_simps)
  have "lerp [u1, v1] [u2, v2] t = [u1 + t * (u2 - u1), v1 + t * (v2 - v1)]"
    by (simp add: lerp_def)
  with one[of "u1 + t * (u2 - u1)" "v1 + t * (v2 - v1)"] mix
  have "polyline_2d_to_3d \<lparr>label = l, points = [[lerp [u1, v1] [u2, v2] t]]\<rparr> md z =
      Inr \<lparr>label = l, points3d =
        [[lerp (point_ops md ([u1, v1] @ [z])) (point_ops md ([u2, v2] @ [z])) t]]\<rparr>"
    by simp
  with one[of u1 v1] one[of u2 v2] show ?thesis by blast
qed

theorem polyline_2d_to_3d_affine_witness:
  "polyline_2d_to_3d \<lparr>label = ''lane'', points = [[lerp [0, 0] [1, 1] (1 / 4)]]\<rparr>
     \<lparr>min_bound = (0, 0), max_bound = (10, 20), width = 1920, height = 1080\<rparr> (- 16 / 10) =
   Inr \<lparr>label = ''lane'',
        points3d = [[lerp [0, 20, - 16 / 10] [10, 0, - 16 / 10] (1 / 4)]]\<rparr>"
proof -
  from polyline_2d_to_3d_affine[of "''lane''" 0 0
      "\<lparr>min_bound = (0, 0), max_bound = (10, 20), width = 1920, height = 1080\<rparr>" "- 16 / 10"
      1 1 "1 / 4"]
  obtain P1 P2 where
    p1: "polyline_2d_to_3d \<lparr>label = ''lane'', points = [[[0, 0]]]\<rparr>
       \<lparr>min_bound = (0, 0), max_bound = (10, 20), width = 1920, height = 1080\<rparr> (- 16 / 10) =
       Inr \<lparr>label = ''lane'', points3d = [[P1]]\<rparr>"
    and p2: "polyline_2d_to_3d \<lparr>label = ''lane'', points = [[[1, 1]]]\<rparr>
       \<lparr>min_bound = (0, 0), max_bound = (10, 20), width = 1920, height = 1080\<rparr> (- 16 / 10) =
       Inr \<lparr>label = ''lane'', points3d = [[P2]]\<rparr>"
    and mix: "polyline_2d_to_3d \<lparr>label = ''lane'', points = [[lerp [0, 0] [1, 1] (1 / 4)]]\<rparr>
       \<lparr>min_bound = (0, 0), max_bound = (10, 20), width = 1920, height = 1080\<rparr> (- 16 / 10) =
       Inr \<lparr>label = ''lane'', points3d = [[lerp P1 P2 (1 / 4)]]\<rparr>"
    by blast
  have e1: "polyline_2d_to_3d \<lparr>label = ''lane'', points = [[[0, 0]]]\<rparr>
       \<lparr>min_bound = (0, 0), max_bound = (10, 20), width = 1920, height = 1080\<rparr> (- 16 / 10) =
       Inr \<lparr>label = ''lane'', points3d = [[[0, 20, - 16 / 10]]]\<rparr>"
    and e2: "polyline_2d_to_3d \<lparr>label = ''lane'', points = [[[1, 1]]]\<rparr>
       \<lparr>min_bound = (0, 0), max_bound = (10, 20), width = 1920, height = 1080\<rparr> (- 16 / 10) =
       Inr \<lparr>label = ''lane'', points3d = [[[10, 0, - 16 / 10]]]\<rparr>"
    by (simp_all add: polyline_2d_to_3d_def np_array_def tuple_get_def np_zeros_def col_set_def
        col_imul_def col_iadd_def col_update_def axis_index_def set_all_but_last_def)
  from p1 e1 have "P1 = [0, 20, - 16 / 10]" by simp
  moreover from p2 e2 have "P2 = [10, 0, - 16 / 10]" by simp
  ultimately show ?thesis using mix by simp
qed

subsection \<open>C9: image width and height are not used\<close>

text \<open>
  Claim C9. Two calls whose metadata have the same bounds, and that agree on the polyline
  and on the plane height, give the same outcome, however the widths and heights of the
  two metadata differ.
\<close>

theorem polyline_2d_to_3d_ignores_image_size:
  "min_bound md1 = min_bound md2 \<Longrightarrow> max_bound md1 = max_bound md2 \<Longrightarrow>
   polyline_2d_to_3d p md1 z = polyline_2d_to_3d p md2 z"
  by (simp add: polyline_2d_to_3d_def)

theorem polyline_2d_to_3d_ignores_image_size_witness:
  "polyline_2d_to_3d \<lparr>label = ''lane'', points = [[[0, 0], [1, 1]]]\<rparr>
     \<lparr>min_bound = (0, 0), max_bound = (10, 20), width = 1920, height = 1080\<rparr> (- 16 / 10) =
   polyline_2d_to_3d \<lparr>label = ''lane'', points = [[[0, 0], [1, 1]]]\<rparr>
     \<lparr>min_bound = (0, 0), max_bound = (10, 20), width = 64, height = 48\<rparr> (- 16 / 10)"
  using polyline_2d_to_3d_ignores_image_size[of
      "\<lparr>min_bound = (0, 0), max_bound = (10, 20), width = 1920, height = 1080\<rparr>"
      "\<lparr>min_bound = (0, 0), max_bound = (10, 20), width = 64, height = 48\<rparr>"
      "\<lparr>label = ''lane'', points = [[[0, 0], [1, 1]]]\<rparr>" "- 16 / 10"]
  by simp

subsection \<open>C10: chains of different lengths\<close>

text \<open>
  Claim C10. A polyline that contains two chains of different lengths is not converted:
  the call raises and returns no polyline. So a call returns only on chains that all
  have the same number of points.
\<close>

theorem polyline_2d_to_3d_needs_rectangular:
  assumes "c1 \<in> set (points p)" and "c2 \<in> set (points p)" and "length c1 \<noteq> length c2"
  shows "\<exists>e. polyline_2d_to_3d p md z = Inl e"
  using polyline_2d_to_3d_ragged[OF assms, of md z] by blast

theorem polyline_2d_to_3d_needs_rectangular_witness:
  "\<exists>e. polyline_2d_to_3d \<lparr>label = ''lane'', points = [[[0, 0], [1, 1]], [[1, 0]]]\<rparr>
     \<lparr>min_bound = (0, 0), max_bound = (10, 20), width = 1920, height = 1080\<rparr> (- 16 / 10) = Inl e"
  using polyline_2d_to_3d_needs_rectangular[of "[[0, 0], [1, 1]]"
      "\<lparr>label = ''lane'', points = [[[0, 0], [1, 1]], [[1, 0]]]\<rparr>" "[[1, 0]]"
      "\<lparr>min_bound = (0, 0), max_bound = (10, 20), width = 1920, height = 1080\<rparr>" "- 16 / 10"]
  by simp

subsection \<open>C4: one key for every entry of the batch\<close>

text \<open>
  Claim C4. Let the three sequences of the batch have the same length and let the group
  identifiers be pairwise distinct. The loop returns a dictionary whenever every polyline
  of the batch is converted without an exception (the only way the loop can fail). Every
  dictionary it returns has exactly the group identifiers of the batch as its keys, so
  as many keys as the batch has entries; and an entry whose collection of 2D polylines is
  absent has its group identifier bound to the empty collection.
\<close>

theorem load_annotation_batch_complete:
  assumes "length all_polylines = length group_ids"
    and "length metadatas = length group_ids"
    and "distinct group_ids"
  shows "((\<forall>i<length group_ids. \<forall>c. all_polylines ! i = Some c \<longrightarrow>
            (\<forall>p \<in> set (polylines c).
               \<exists>r. polyline_2d_to_3d p (metadatas ! i) road_surface = Inr r))
          \<longrightarrow> (\<exists>d. load_annotation_polylines_3d all_polylines metadatas group_ids
                      road_surface = Inr d)) \<and>
         (\<forall>d. load_annotation_polylines_3d all_polylines metadatas group_ids road_surface = Inr d
            \<longrightarrow> dom d = set group_ids \<and> card (dom d) = length group_ids \<and>
                (\<forall>i<length group_ids. all_polylines ! i = None
                   \<longrightarrow> d (group_ids ! i) = Some \<lparr>polylines = []\<rparr>))"
proof -
  have returns: "\<exists>d. load_annotation_polylines_3d all_polylines metadatas group_ids
      road_surface = Inr d"
    if "\<forall>i<length group_ids. \<forall>c. all_polylines ! i = Some c \<longrightarrow>
          (\<forall>p \<in> set (polylines c).
             \<exists>r. polyline_2d_to_3d p (metadatas ! i) road_surface = Inr r)"
    using load_annotation_ok[OF assms(1,2) that] .
  have keys: "dom d = set group_ids \<and> card (dom d) = length group_ids \<and>
      (\<forall>i<length group_ids. all_polylines ! i = None
         \<longrightarrow> d (group_ids ! i) = Some \<lparr>polylines = []\<rparr>)"
    if run: "load_annotation_polylines_3d all_polylines metadatas group_ids road_surface = Inr d"
    for d
  proof -
    have dom: "dom d = set group_ids"
      using load_annotation_dom[OF assms(1,2) run] .
    have card: "card (dom d) = length group_ids"
      using dom assms(3) by (simp add: distinct_card)
    have absent: "d (group_ids ! i) = Some \<lparr>polylines = []\<rparr>"
      if i: "i < length group_ids" and none: "all_polylines ! i = None" for i
    proof -
      have "\<forall>k. i < k \<and> k < length group_ids \<longrightarrow> group_ids ! k \<noteq> group_ids ! i"
        using assms(3) i by (auto simp add: nth_eq_iff_index_eq)
      from load_annotation_last[OF assms(1,2) i this run] obtain s where
        "convert_sample (all_polylines ! i) (metadatas ! i) road_surface = Inr s"
        and "d (group_ids ! i) = Some \<lparr>polylines = s\<rparr>" by blast
      with none show ?thesis by (simp add: convert_sample_def)
    qed
    from dom card absent show ?thesis by blast
  qed
  from returns keys show ?thesis by blast
qed

theorem load_annotation_batch_complete_witness:
  "\<exists>d. load_annotation_polylines_3d
       [Some \<lparr>polylines = [\<lparr>label = ''lane'', points = [[[0, 0], [1, 1]]]\<rparr>]\<rparr>, None]
       [\<lparr>min_bound = (0, 0), max_bound = (10, 20), width = 1920, height = 1080\<rparr>,
        \<lparr>min_bound = (0, 0), max_bound = (10, 20), width = 1920, height = 1080\<rparr>]
       [''g1'', ''g2''] (- 16 / 10) = Inr d \<and>
     dom d = {''g1'', ''g2''} \<and> card (dom d) = 2 \<and> d ''g2'' = Some \<lparr>polylines = []\<rparr>"
proof -
  let ?a = "[Some \<lparr>polylines = [\<lparr>label = ''lane'', points = [[[0, 0], [1, 1 :: real]]]\<rparr>]\<rparr>, None]"
  let ?b = "[\<lparr>min_bound = (0, 0), max_bound = (10, 20), width = 1920, height = 1080\<rparr>,
        \<lparr>min_bound = (0, 0), max_bound = (10, 20), width = 1920, height = 1080\<rparr>]"
  let ?c = "[''g1'', ''g2'']"
  have conv: "polyline_2d_to_3d \<lparr>label = ''lane'', points = [[[0, 0], [1, 1]]]\<rparr>
       \<lparr>min_bound = (0, 0), max_bound = (10, 20), width = 1920, height = 1080\<rparr> (- 16 / 10) =
       Inr \<lparr>label = ''lane'', points3d = [[[0, 20, - 16 / 10], [10, 0, - 16 / 10]]]\<rparr>"
    by (simp add: polyline_2d_to_3d_def np_array_def tuple_get_def np_zeros_def col_set_def
        col_imul_def col_iadd_def col_update_def axis_index_def set_all_but_last_def)
  have ok: "\<forall>i<length ?c. \<forall>c. ?a ! i = Some c \<longrightarrow>
      (\<forall>p \<in> set (polylines c). \<exists>r. polyline_2d_to_3d p (?b ! i) (- 16 / 10) = Inr r)"
  proof (intro allI impI)
    fix i c
    assume "i < length ?c" and c: "?a ! i = Some c"
    then have "i = 0 \<or> i = 1" by auto
    with c have "i = 0" and "c = \<lparr>polylines = [\<lparr>label = ''lane'', points = [[[0, 0], [1, 1]]]\<rparr>]\<rparr>"
      by auto
    then show "\<forall>p \<in> set (polylines c). \<exists>r. polyline_2d_to_3d p (?b ! i) (- 16 / 10) = Inr r"
      using conv by simp
  qed
  note t = load_annotation_batch_complete[of ?a ?c ?b "- 16 / 10"]
  have h: "length ?a = length ?c" "length ?b = length ?c" "distinct ?c" by simp_all
  from t[OF h] ok obtain d where d: "load_annotation_polylines_3d ?a ?b ?c (- 16 / 10) = Inr d"
    by blast
  with t[OF h] have dom: "dom d = set ?c" and card: "card (dom d) = length ?c"
    and absent: "\<forall>i<length ?c. ?a ! i = None \<longrightarrow> d (?c ! i) = Some \<lparr>polylines = []\<rparr>"
    by blast+
  from absent[rule_format, of 1] have "d ''g2'' = Some \<lparr>polylines = []\<rparr>" by simp
  with d dom card show ?thesis by auto
qed

subsection \<open>C8: two entries with the same group identifier\<close>

text \<open>
  Claim C8. Let entries \<open>i\<close> and \<open>j\<close> of the batch, \<open>i\<close> before \<open>j\<close>, carry the
  same group identifier, and let no entry after \<open>j\<close> carry it. If every polyline of the
  batch is converted without an exception, the loop does not fail: it returns a
  dictionary in which that identifier is bound to the converted collection of the later
  entry \<open>j\<close>. The keys are the group identifiers of the batch, fewer than the batch
  has entries.
\<close>

theorem load_annotation_collision_overwrites:
  assumes "length all_polylines = length group_ids"
    and "length metadatas = length group_ids"
    and "i < j" and "j < length group_ids"
    and "group_ids ! i = group_ids ! j"
    and "\<forall>k. j < k \<and> k < length group_ids \<longrightarrow> group_ids ! k \<noteq> group_ids ! j"
    and "\<forall>n<length group_ids. \<forall>c. all_polylines ! n = Some c \<longrightarrow>
           (\<forall>p \<in> set (polylines c).
              \<exists>r. polyline_2d_to_3d p (metadatas ! n) road_surface = Inr r)"
  shows "\<exists>d s. load_annotation_polylines_3d all_polylines metadatas group_ids road_surface = Inr d \<and>
           convert_sample (all_polylines ! j) (metadatas ! j) road_surface = Inr s \<and>
           d (group_ids ! i) = Some \<lparr>polylines = s\<rparr> \<and>
           dom d = set group_ids \<and> card (dom d) < length group_ids"
proof -
  from load_annotation_ok[OF assms(1,2,7)] obtain d where
    run: "load_annotation_polylines_3d all_polylines metadatas group_ids road_surface = Inr d"
    by blast
  from load_annotation_last[OF assms(1,2,4,6) run] obtain s where
    s: "convert_sample (all_polylines ! j) (metadatas ! j) road_surface = Inr s"
    and dj: "d (group_ids ! j) = Some \<lparr>polylines = s\<rparr>" by blast
  have dom: "dom d = set group_ids"
    using load_annotation_dom[OF assms(1,2) run] .
  have "\<not> distinct group_ids"
  proof
    assume "distinct group_ids"
    moreover from assms(3,4) have "i < length group_ids" by simp
    ultimately have "i = j"
      using assms(4,5) by (simp add: nth_eq_iff_index_eq)
    with assms(3) show False by simp
  qed
  then have "card (set group_ids) \<noteq> length group_ids"
    using card_distinct by blast
  with card_length[of group_ids] have "card (set group_ids) < length group_ids" by simp
  with run s dj dom assms(5) show ?thesis by auto
qed

theorem load_annotation_collision_overwrites_witness:
  "\<exists>d. load_annotation_polylines_3d
       [Some \<lparr>polylines = [\<lparr>label = ''lane'', points = [[[0, 0], [1, 1]]]\<rparr>]\<rparr>,
        Some \<lparr>polylines = [\<lparr>label = ''kerb'', points = [[[1, 0], [0, 1]]]\<rparr>]\<rparr>]
       [\<lparr>min_bound = (0, 0), max_bound = (10, 20), width = 1920, height = 1080\<rparr>,
        \<lparr>min_bound = (0, 0), max_bound = (10, 20), width = 1920, height = 1080\<rparr>]
       [''g1'', ''g1''] (- 16 / 10) = Inr d \<and>
     d ''g1'' = Some \<lparr>polylines =
       [\<lparr>label = ''kerb'', points3d = [[[10, 20, - 16 / 10], [0, 0, - 16 / 10]]]\<rparr>]\<rparr> \<and>
     dom d = {''g1''}"
proof -
  let ?a = "[Some \<lparr>polylines = [\<lparr>label = ''lane'', points = [[[0, 0], [1, 1 :: real]]]\<rparr>]\<rparr>,
        Some \<lparr>polylines = [\<lparr>label = ''kerb'', points = [[[1, 0], [0, 1]]]\<rparr>]\<rparr>]"
  let ?m = "\<lparr>min_bound = (0, 0), max_bound = (10, 20), width = 1920, height = 1080\<rparr>"
  let ?b = "[?m, ?m]"
  let ?c = "[''g1'', ''g1'']"
  have conv1: "polyline_2d_to_3d \<lparr>label = ''lane'', points = [[[0, 0], [1, 1]]]\<rparr> ?m (- 16 / 10) =
       Inr \<lparr>label = ''lane'', points3d = [[[0, 20, - 16 / 10], [10, 0, - 16 / 10]]]\<rparr>"
    and conv2: "polyline_2d_to_3d \<lparr>label = ''kerb'', points = [[[1, 0], [0, 1]]]\<rparr> ?m (- 16 / 10) =
       Inr \<lparr>label = ''kerb'', points3d = [[[10, 20, - 16 / 10], [0, 0, - 16 / 10]]]\<rparr>"
    by (simp_all add: polyline_2d_to_3d_def np_array_def tuple_get_def np_zeros_def col_set_def
        col_imul_def col_iadd_def col_update_def axis_index_def set_all_but_last_def)
  have ok: "\<forall>n<length ?c. \<forall>c. ?a ! n = Some c \<longrightarrow>
      (\<forall>p \<in> set (polylines c). \<exists>r. polyline_2d_to_3d p (?b ! n) (- 16 / 10) = Inr r)"
  proof (intro allI impI)
    fix n c
    assume "n < length ?c" and c: "?a ! n = Some c"
    then have "n = 0 \<or> n = 1" by auto
    then show "\<forall>p \<in> set (polylines c). \<exists>r. polyline_2d_to_3d p (?b ! n) (- 16 / 10) = Inr r"
      using c conv1 conv2 by auto
  qed
  have last: "\<forall>k. 1 < k \<and> k < length ?c \<longrightarrow> ?c ! k \<noteq> ?c ! 1" by simp
  have h: "length ?a = length ?c" "length ?b = length ?c" "(0::nat) < 1" "1 < length ?c"
    "?c ! 0 = ?c ! 1" by simp_all
  from load_annotation_collision_overwrites[OF h last ok] obtain d s where
    d: "load_annotation_polylines_3d ?a ?b ?c (- 16 / 10) = Inr d"
    and s: "convert_sample (?a ! 1) (?b ! 1) (- 16 / 10) = Inr s"
    and g: "d (?c ! 0) = Some \<lparr>polylines = s\<rparr>" and dom: "dom d = set ?c"
    by blast
  from s conv2 have "s = [\<lparr>label = ''kerb'', points3d = [[[10, 20, - 16 / 10], [0, 0, - 16 / 10]]]\<rparr>]"
    by (simp add: convert_sample_def)
  with d g dom show ?thesis by auto
qed

end
